theory Spec2Isabelle
  imports Complex_Main "HOL-Library.Multiset"
begin

section \<open>Smart Habit Tracker: the analytics core of \<open>app2.py\<close>\<close>

text \<open>
  The development embeds the four pieces of logic of \<open>src/app2.py\<close>:
  \<open>composite_score\<close> (lines 31-41), \<open>analyze_week\<close> (lines 43-52),
  \<open>suggestions_from_averages\<close> (lines 54-71) and the inline alert rules of the
  weekly summary (lines 226-232).

  Numbers. Python's \<open>float\<close> and \<open>int\<close> cell values are modelled as real numbers
  with exact arithmetic: \<open>/\<close> is true division, \<open>min\<close> is the minimum of two
  numbers. Rounding of IEEE doubles and pandas' \<open>NaN\<close> for a missing cell are outside the
  model.
\<close>

subsection \<open>Rows\<close>

text \<open>
  \<open>DataFrame.apply(composite_score, axis=1)\<close> hands every row to \<open>composite_score\<close>
  as a pandas \<open>Series\<close>: a finite mapping from column labels to cell values. The function
  reads it only through \<open>row.get(label, 0)\<close>, which yields the default when the label is
  not in the row.
\<close>

type_synonym series = "string \<rightharpoonup> real"

definition row_get :: "series \<Rightarrow> string \<Rightarrow> real \<Rightarrow> real" where
  "row_get row k d = (case row k of None \<Rightarrow> d | Some v \<Rightarrow> v)"

subsection \<open>\<open>composite_score\<close>\<close>

text \<open>
  \<^verbatim>\<open>
  def composite_score(row):
      s = min(row.get("sleep", 0) / 9.0, 1.0)
      hf = min(row.get("healthy_food", 0) / 5.0, 1.0)
      jf = 1 - min(row.get("junk_food", 0) / 5.0, 1.0)
      ex = min(row.get("exercise", 0) / 60.0, 1.0)
      w = min(row.get("water", 0) / 8.0, 1.0)
      r = min(row.get("reading", 0) / 60.0, 1.0)
      return 0.18*s + 0.18*hf + 0.12*jf + 0.2*ex + 0.16*w + 0.16*r
  \<close>
\<close>

definition composite_score :: "series \<Rightarrow> real" where
  "composite_score row =
     (let s = min (row_get row ''sleep'' 0 / 9.0) 1.0;
          hf = min (row_get row ''healthy_food'' 0 / 5.0) 1.0;
          jf = 1 - min (row_get row ''junk_food'' 0 / 5.0) 1.0;
          ex = min (row_get row ''exercise'' 0 / 60.0) 1.0;
          w = min (row_get row ''water'' 0 / 8.0) 1.0;
          r = min (row_get row ''reading'' 0 / 60.0) 1.0
      in 0.18 * s + 0.18 * hf + 0.12 * jf + 0.2 * ex + 0.16 * w + 0.16 * r)"

subsection \<open>The scoring table of the specification\<close>

text \<open>
  The specification describes the score by a table: six metrics, each with a label, an
  ideal cap, a direction and a weight. The definitions below follow that table and the
  sentences around it; they are compared with \<open>composite_score\<close> further down.
\<close>

datatype metric = Sleep | Healthy_food | Junk_food | Exercise | Water | Reading

fun label :: "metric \<Rightarrow> string" where
  "label Sleep = ''sleep''"
| "label Healthy_food = ''healthy_food''"
| "label Junk_food = ''junk_food''"
| "label Exercise = ''exercise''"
| "label Water = ''water''"
| "label Reading = ''reading''"

fun cap :: "metric \<Rightarrow> real" where
  "cap Sleep = 9.0"
| "cap Healthy_food = 5.0"
| "cap Junk_food = 5.0"
| "cap Exercise = 60.0"
| "cap Water = 8.0"
| "cap Reading = 60.0"

fun weight :: "metric \<Rightarrow> real" where
  "weight Sleep = 0.18"
| "weight Healthy_food = 0.18"
| "weight Junk_food = 0.12"
| "weight Exercise = 0.20"
| "weight Water = 0.16"
| "weight Reading = 0.16"

definition metrics :: "metric list" where
  "metrics = [Sleep, Healthy_food, Junk_food, Exercise, Water, Reading]"

text \<open>A fixed field that is absent from the record counts as 0.\<close>

definition field_value :: "series \<Rightarrow> metric \<Rightarrow> real" where
  "field_value row m = (case row (label m) of None \<Rightarrow> 0 | Some v \<Rightarrow> v)"

text \<open>Normalisation: \<open>min(value/cap, 1)\<close>, inverted for junk food.\<close>

definition normalized :: "metric \<Rightarrow> real \<Rightarrow> real" where
  "normalized m v =
     (if m = Junk_food then 1 - min (v / cap m) 1.0 else min (v / cap m) 1.0)"

definition contribution :: "series \<Rightarrow> metric \<Rightarrow> real" where
  "contribution row m = weight m * normalized m (field_value row m)"

definition weighted_formula :: "series \<Rightarrow> real" where
  "weighted_formula row = sum_list (map (contribution row) metrics)"

section \<open>The window analyser\<close>

subsection \<open>Data frames\<close>

text \<open>
  \<open>analyze_week\<close> receives a pandas \<open>DataFrame\<close>. The model keeps what the function
  uses of it: the labels of the numeric columns and the rows in positional order. Every
  row carries its \<open>date\<close> (the \<open>date\<close> column, a \<open>datetime.date\<close>, here its
  proleptic ordinal) and a cell for every label; \<open>columns\<close> says which labels are columns
  of the frame. The \<open>date\<close> column is always there: \<open>make_empty_df\<close> creates it and
  the CSV import refuses a file without it. Index labels are those of
  \<open>pd.concat(..., ignore_index=True)\<close>, one per row and never repeated, so a row is
  identified with its position.
\<close>

type_synonym date = nat

record entry =
  date :: date
  cell :: "string \<Rightarrow> real"

record dataframe =
  columns :: "string list"
  rows :: "entry list"

datatype error = KeyError "string list" | ValueError

text \<open>An exception raised by a step ends the computation; a value goes on to the next step.\<close>

definition bind_result :: "error + 'a \<Rightarrow> ('a \<Rightarrow> error + 'b) \<Rightarrow> error + 'b" where
  "bind_result r f = (case r of Inl err \<Rightarrow> Inl err | Inr v \<Rightarrow> f v)"

text \<open>The row of a frame as the \<open>Series\<close> that \<open>apply(..., axis=1)\<close> passes on.\<close>

definition row_series :: "string list \<Rightarrow> entry \<Rightarrow> series" where
  "row_series cols e = (\<lambda>k. if k \<in> set cols then Some (cell e k) else None)"

text \<open>
  \<open>DataFrame.empty\<close> holds when an axis has length 0. The column axis holds at least
  \<open>date\<close>, which leaves the row axis.
\<close>

definition empty_df :: "dataframe \<Rightarrow> bool" where
  "empty_df df = (rows df = [])"

text \<open>
  \<open>Series.idxmax()\<close>: the position of the first occurrence of the maximum; it raises
  \<open>ValueError\<close> on an empty series. The scan keeps the best position and value seen so
  far and moves only on a strictly larger value.
\<close>

fun argmax_scan :: "nat \<Rightarrow> real \<Rightarrow> nat \<Rightarrow> real list \<Rightarrow> nat" where
  "argmax_scan bi bv i [] = bi"
| "argmax_scan bi bv i (x # xs) =
     (if bv < x then argmax_scan i x (Suc i) xs else argmax_scan bi bv (Suc i) xs)"

definition idxmax :: "real list \<Rightarrow> error + nat" where
  "idxmax xs = (case xs of [] \<Rightarrow> Inl ValueError | x # r \<Rightarrow> Inr (argmax_scan 0 x 1 r))"

text \<open>
  \<open>df[[c1, ..., cn]]\<close>: the frame restricted to the listed columns; \<open>KeyError\<close>, naming
  the labels that are not columns, when there are any.
\<close>

definition select_columns :: "dataframe \<Rightarrow> string list \<Rightarrow> error + dataframe" where
  "select_columns df cols =
     (case filter (\<lambda>c. c \<notin> set (columns df)) cols of
        [] \<Rightarrow> Inr (df\<lparr>columns := cols\<rparr>)
      | c # missing \<Rightarrow> Inl (KeyError (c # missing)))"

text \<open>\<open>DataFrame.mean().to_dict()\<close>: for every column its sum divided by the number of rows.\<close>

definition mean :: "real list \<Rightarrow> real" where
  "mean xs = sum_list xs / real (length xs)"

definition mean_to_dict :: "dataframe \<Rightarrow> (string \<rightharpoonup> real)" where
  "mean_to_dict df = map_of (map (\<lambda>c. (c, mean (map (\<lambda>e. cell e c) (rows df)))) (columns df))"

subsection \<open>\<open>analyze_week\<close>\<close>

text \<open>
  \<^verbatim>\<open>
  def analyze_week(df_week):
      if df_week.empty:
          return None
      df = df_week.copy()
      df["score"] = df.apply(composite_score, axis=1)
      best_idx = df["score"].idxmax()
      best_day = df.loc[best_idx, "date"]
      averages = df[["sleep", "healthy_food", "junk_food", "exercise", "water", "reading"]].mean().to_dict()
      return {"best_day": best_day, "averages": averages,
              "scores": df[["date","score"]].sort_values("date")}
  \<close>
  The result is \<open>Inr None\<close> for Python's \<open>None\<close>, \<open>Inr (Some s)\<close> for the dictionary
  and \<open>Inl e\<close> for a raised exception. \<open>sort_values("date")\<close> is modelled by the
  insertion sort \<open>sort_key\<close> on the date; what order pandas gives to rows of equal date
  is not used by any statement below. \<open>df.loc[best_idx, "date"]\<close> reads the row that
  \<open>idxmax\<close> found, which is a row of the frame (\<open>idxmax_first_max\<close> below), so the
  read \<open>rows df_week ! best_idx\<close> is in range.
\<close>

record summary =
  best_day :: date
  averages :: "string \<rightharpoonup> real"
  scores :: "(date \<times> real) list"

definition fixed_cols :: "string list" where
  "fixed_cols = [''sleep'', ''healthy_food'', ''junk_food'', ''exercise'', ''water'', ''reading'']"

definition score_column :: "dataframe \<Rightarrow> real list" where
  "score_column df = map (\<lambda>e. composite_score (row_series (columns df) e)) (rows df)"

definition analyze_week :: "dataframe \<Rightarrow> error + summary option" where
  "analyze_week df_week =
     (if empty_df df_week then Inr None
      else
        let score = score_column df_week in
        bind_result (idxmax score) (\<lambda>best_idx.
        let best_day = date (rows df_week ! best_idx) in
        bind_result (select_columns df_week fixed_cols) (\<lambda>sel.
        let averages = mean_to_dict sel in
        Inr (Some \<lparr>best_day = best_day, averages = averages,
          scores = sort_key fst (zip (map date (rows df_week)) score)\<rparr>))))"

section \<open>The advisory rules\<close>

text \<open>
  The averages are a Python \<open>dict\<close>; \<open>avg["sleep"]\<close> raises \<open>KeyError\<close> when the key is
  missing. Python strings are sequences of code points; the messages are given here as
  their UTF-8 bytes, the dashes of the source written out.
\<close>

definition lookup :: "(string \<rightharpoonup> real) \<Rightarrow> string \<Rightarrow> error + real" where
  "lookup avg k = (case avg k of None \<Rightarrow> Inl (KeyError [k]) | Some v \<Rightarrow> Inr v)"

definition em_dash :: string where
  "em_dash = [CHR 0xE2, CHR 0x80, CHR 0x94]"

definition en_dash :: string where
  "en_dash = [CHR 0xE2, CHR 0x80, CHR 0x93]"

definition tip_sleep :: string where
  "tip_sleep = ''Try to increase sleep (aim for 7-9 hours). Consider a consistent bedtime.''"

definition tip_water :: string where
  "tip_water = ''Drink more water '' @ em_dash @ '' target ~8 glasses daily. Set small reminders.''"

definition tip_exercise :: string where
  "tip_exercise = ''Add more movement '' @ em_dash @ '' even 20'' @ en_dash
     @ ''30 min of brisk walk helps.''"

definition tip_healthy_food :: string where
  "tip_healthy_food = ''Increase healthy food portions (fruits/veggies).''"

definition tip_junk_food :: string where
  "tip_junk_food = ''Reduce junk food frequency; swap one snack for fruit.''"

definition tip_reading :: string where
  "tip_reading = ''Try a short daily reading habit '' @ em_dash @ '' 10'' @ en_dash
     @ ''20 minutes.''"

definition tip_great :: string where
  "tip_great = ''Great week! Keep up the balanced habits.''"

text \<open>
  \<^verbatim>\<open>
  def suggestions_from_averages(avg):
      tips = []
      if avg["sleep"] < 6:        tips.append(...)
      if avg["water"] < 6:        tips.append(...)
      if avg["exercise"] < 20:    tips.append(...)
      if avg["healthy_food"] < 3: tips.append(...)
      if avg["junk_food"] > 1:    tips.append(...)
      if avg["reading"] < 15:     tips.append(...)
      if not tips:
          tips.append("Great week! Keep up the balanced habits.")
      return tips
  \<close>
  The list \<open>tips\<close> is threaded through the six tests in the order of the source.
\<close>

definition suggestions_from_averages :: "(string \<rightharpoonup> real) \<Rightarrow> error + string list" where
  "suggestions_from_averages avg =
     (let tips = [] in
      bind_result (lookup avg ''sleep'') (\<lambda>sleep.
      let tips = (if sleep < 6 then tips @ [tip_sleep] else tips) in
      bind_result (lookup avg ''water'') (\<lambda>water.
      let tips = (if water < 6 then tips @ [tip_water] else tips) in
      bind_result (lookup avg ''exercise'') (\<lambda>exercise.
      let tips = (if exercise < 20 then tips @ [tip_exercise] else tips) in
      bind_result (lookup avg ''healthy_food'') (\<lambda>healthy_food.
      let tips = (if healthy_food < 3 then tips @ [tip_healthy_food] else tips) in
      bind_result (lookup avg ''junk_food'') (\<lambda>junk_food.
      let tips = (if junk_food > 1 then tips @ [tip_junk_food] else tips) in
      bind_result (lookup avg ''reading'') (\<lambda>reading.
      let tips = (if reading < 15 then tips @ [tip_reading] else tips) in
      let tips = (if tips = [] then tips @ [tip_great] else tips) in
      Inr tips)))))))"

text \<open>
  The alert rules stand inline in the weekly summary (lines 226-232); \<open>avgs\<close> is the
  \<open>averages\<close> dictionary of \<open>analyze_week\<close>. The list that the source calls
  \<open>alerts\<close> is \<open>found\<close> here, the function taking the name.
  \<^verbatim>\<open>
  alerts = []
  if avgs["water"] < 5:     alerts.append(...)
  if avgs["sleep"] < 6:     alerts.append(...)
  if avgs["exercise"] < 15: alerts.append(...)
  \<close>
\<close>

definition alert_water :: string where
  "alert_water = ''Low average water intake '' @ em_dash
     @ '' consider setting water reminders.''"

definition alert_sleep :: string where
  "alert_sleep = ''Low average sleep '' @ em_dash @ '' consistent schedule may help.''"

definition alert_exercise :: string where
  "alert_exercise = ''Low average exercise minutes.''"

definition alerts :: "(string \<rightharpoonup> real) \<Rightarrow> error + string list" where
  "alerts avgs =
     (let found = [] in
      bind_result (lookup avgs ''water'') (\<lambda>water.
      let found = (if water < 5 then found @ [alert_water] else found) in
      bind_result (lookup avgs ''sleep'') (\<lambda>sleep.
      let found = (if sleep < 6 then found @ [alert_sleep] else found) in
      bind_result (lookup avgs ''exercise'') (\<lambda>exercise.
      let found = (if exercise < 15 then found @ [alert_exercise] else found) in
      Inr found))))"

subsection \<open>The rule tables of the specification\<close>

text \<open>
  The specification gives both advisories as a rule table read top to bottom: a metric, a
  predicate on its average and a message. The messages of the rules whose predicate
  holds are reported in table order; \<open>suggestions\<close> reports one positive message when no
  rule fires.
\<close>

type_synonym rule = "string \<times> (real \<Rightarrow> bool) \<times> string"

definition suggestion_table :: "rule list" where
  "suggestion_table =
     [(''sleep'', (\<lambda>v. v < 6), tip_sleep),
      (''water'', (\<lambda>v. v < 6), tip_water),
      (''exercise'', (\<lambda>v. v < 20), tip_exercise),
      (''healthy_food'', (\<lambda>v. v < 3), tip_healthy_food),
      (''junk_food'', (\<lambda>v. v > 1), tip_junk_food),
      (''reading'', (\<lambda>v. v < 15), tip_reading)]"

definition alert_table :: "rule list" where
  "alert_table =
     [(''water'', (\<lambda>v. v < 5), alert_water),
      (''sleep'', (\<lambda>v. v < 6), alert_sleep),
      (''exercise'', (\<lambda>v. v < 15), alert_exercise)]"

definition fired :: "rule list \<Rightarrow> (string \<Rightarrow> real) \<Rightarrow> string list" where
  "fired tbl v = map (\<lambda>(k, p, msg). msg) (filter (\<lambda>(k, p, msg). p (v k)) tbl)"

definition suggestions_spec :: "(string \<Rightarrow> real) \<Rightarrow> string list" where
  "suggestions_spec v =
     (if fired suggestion_table v = [] then [tip_great] else fired suggestion_table v)"

section \<open>Example data\<close>

text \<open>
  The dictionary \<open>new\<close> that the Save Entry handler (lines 122-130) appends to the
  session frame, without custom habits: a date and the six fixed values.
\<close>

definition new_entry ::
  "date \<Rightarrow> real \<Rightarrow> real \<Rightarrow> real \<Rightarrow> real \<Rightarrow> real \<Rightarrow> real \<Rightarrow> entry" where
  "new_entry d sleep healthy_food junk_food exercise water reading =
     \<lparr>date = d,
      cell = (\<lambda>k. 0)(''sleep'' := sleep, ''healthy_food'' := healthy_food,
        ''junk_food'' := junk_food, ''exercise'' := exercise, ''water'' := water,
        ''reading'' := reading)\<rparr>"

text \<open>
  The three days of the specification's end-to-end example, entered out of date order
  (day 3, day 1, day 2), in a frame that also has a custom column.
\<close>

definition example_week :: dataframe where
  "example_week =
     \<lparr>columns = [''sleep'', ''healthy_food'', ''junk_food'', ''exercise'', ''water'',
        ''reading'', ''meditation''],
      rows = [new_entry 3 7 3 1 25 7 10, new_entry 1 4 1 3 10 3 5,
        new_entry 2 8 4 0 45 8 30]\<rparr>"

text \<open>
  Two entries with the same, maximal score, the later date entered first, and a second
  entry for day 5.
\<close>

definition tie_week :: dataframe where
  "tie_week =
     \<lparr>columns = [''sleep'', ''healthy_food'', ''junk_food'', ''exercise'', ''water'',
        ''reading''],
      rows = [new_entry 5 8 4 0 45 8 30, new_entry 3 8 4 0 45 8 30,
        new_entry 5 4 1 3 10 3 5]\<rparr>"

section \<open>Properties of \<open>composite_score\<close>\<close>

lemma composite_score_unfold:
  "composite_score row =
     0.18 * min (row_get row ''sleep'' 0 / 9) 1
   + 0.18 * min (row_get row ''healthy_food'' 0 / 5) 1
   + 0.12 * (1 - min (row_get row ''junk_food'' 0 / 5) 1)
   + 0.2 * min (row_get row ''exercise'' 0 / 60) 1
   + 0.16 * min (row_get row ''water'' 0 / 8) 1
   + 0.16 * min (row_get row ''reading'' 0 / 60) 1"
  by (simp add: composite_score_def Let_def)

lemma field_value_row_get: "field_value row m = row_get row (label m) 0"
  by (simp add: field_value_def row_get_def)

lemma weighted_formula_unfold:
  "weighted_formula row =
     0.18 * min (row_get row ''sleep'' 0 / 9) 1
   + 0.18 * min (row_get row ''healthy_food'' 0 / 5) 1
   + 0.12 * (1 - min (row_get row ''junk_food'' 0 / 5) 1)
   + 0.2 * min (row_get row ''exercise'' 0 / 60) 1
   + 0.16 * min (row_get row ''water'' 0 / 8) 1
   + 0.16 * min (row_get row ''reading'' 0 / 60) 1"
  by (simp add: weighted_formula_def metrics_def contribution_def normalized_def
      field_value_row_get)

lemma composite_score_eq_formula: "composite_score row = weighted_formula row"
  by (simp only: composite_score_unfold weighted_formula_unfold)

lemma composite_score_upd:
  "composite_score (row(label m \<mapsto> v)) =
     composite_score row - contribution row m + weight m * normalized m v"
  by (cases m)
    (simp_all add: composite_score_unfold contribution_def normalized_def
      field_value_row_get row_get_def)



lemma normalized_saturated:
  "cap m \<le> x \<Longrightarrow> normalized m x = (if m = Junk_food then 0 else 1)"
  by (cases m) (auto simp: normalized_def min_def)

lemma weight_pos: "0 < weight m"
  by (cases m) simp_all

lemma normalized_bounds: "0 \<le> v \<Longrightarrow> 0 \<le> normalized m v \<and> normalized m v \<le> 1"
  by (cases m) (auto simp: normalized_def min_def)

lemma contribution_bounds:
  "0 \<le> field_value row m \<Longrightarrow> 0 \<le> contribution row m \<and> contribution row m \<le> weight m"
  using normalized_bounds [of "field_value row m" m] weight_pos [of m]
  by (simp add: contribution_def mult_left_le)

lemma weighted_formula_sum:
  "weighted_formula row =
     contribution row Sleep + contribution row Healthy_food + contribution row Junk_food
     + contribution row Exercise + contribution row Water + contribution row Reading"
  by (simp add: weighted_formula_def metrics_def)

subsection \<open>The weighted formula\<close>

text \<open>
  Claim C1. For every record, \<open>composite_score\<close> is the weighted formula of the
  specification's table: each of the six fixed metrics is normalised as
  \<open>min(value/cap, 1)\<close> with the caps 9, 5, 5, 60, 8 and 60, junk food is inverted, and the
  result is \<open>0.18*sleep + 0.18*healthy_food + 0.12*junk_food + 0.20*exercise + 0.16*water +
  0.16*reading\<close> over the normalised values. A fixed field that the record does not have
  counts as 0: the score is that of the record with the field set to 0. A field at or
  above its cap contributes exactly its weight, and exactly zero for junk food: the
  score is that of the record with the field at its cap.
\<close>

theorem composite_score_weighted_formula:
  "composite_score row = weighted_formula row
   \<and> composite_score row =
       0.18 * min (field_value row Sleep / 9.0) 1.0
     + 0.18 * min (field_value row Healthy_food / 5.0) 1.0
     + 0.12 * (1 - min (field_value row Junk_food / 5.0) 1.0)
     + 0.20 * min (field_value row Exercise / 60.0) 1.0
     + 0.16 * min (field_value row Water / 8.0) 1.0
     + 0.16 * min (field_value row Reading / 60.0) 1.0
   \<and> (row (label m) = None \<longrightarrow>
        field_value row m = 0 \<and> composite_score row = composite_score (row(label m \<mapsto> 0)))
   \<and> (cap m \<le> field_value row m \<longrightarrow>
        contribution row m = (if m = Junk_food then 0 else weight m)
        \<and> composite_score row = composite_score (row(label m \<mapsto> cap m)))"
proof (intro conjI impI)
  show "composite_score row = weighted_formula row"
    by (rule composite_score_eq_formula)
  show "composite_score row =
       0.18 * min (field_value row Sleep / 9.0) 1.0
     + 0.18 * min (field_value row Healthy_food / 5.0) 1.0
     + 0.12 * (1 - min (field_value row Junk_food / 5.0) 1.0)
     + 0.20 * min (field_value row Exercise / 60.0) 1.0
     + 0.16 * min (field_value row Water / 8.0) 1.0
     + 0.16 * min (field_value row Reading / 60.0) 1.0"
    by (simp add: composite_score_unfold field_value_row_get)
next
  assume absent: "row (label m) = None"
  then show fv: "field_value row m = 0"
    by (simp add: field_value_def)
  show "composite_score row = composite_score (row(label m \<mapsto> 0))"
    by (simp add: composite_score_upd contribution_def fv)
next
  assume sat: "cap m \<le> field_value row m"
  then show c: "contribution row m = (if m = Junk_food then 0 else weight m)"
    by (simp add: contribution_def normalized_saturated)
  have "normalized m (cap m) = (if m = Junk_food then 0 else 1)"
    by (rule normalized_saturated) simp
  then show "composite_score row = composite_score (row(label m \<mapsto> cap m))"
    using c by (simp add: composite_score_upd)
qed

text \<open>
  The record with ten hours of sleep, seven junk food items and nothing else: water is
  absent and counts as 0, sleep is above its cap and gives 0.18, junk food is above its
  cap and gives 0.
\<close>

theorem composite_score_weighted_formula_witness:
  "composite_score [''sleep'' \<mapsto> 10, ''junk_food'' \<mapsto> 7] = 0.18
   \<and> weighted_formula [''sleep'' \<mapsto> 10, ''junk_food'' \<mapsto> 7] = 0.18
   \<and> [''sleep'' \<mapsto> 10, ''junk_food'' \<mapsto> 7] (label Water) = None
   \<and> field_value [''sleep'' \<mapsto> 10, ''junk_food'' \<mapsto> 7] Water = 0
   \<and> cap Sleep \<le> field_value [''sleep'' \<mapsto> 10, ''junk_food'' \<mapsto> 7] Sleep
   \<and> contribution [''sleep'' \<mapsto> 10, ''junk_food'' \<mapsto> 7] Sleep = 0.18
   \<and> cap Junk_food \<le> field_value [''sleep'' \<mapsto> 10, ''junk_food'' \<mapsto> 7] Junk_food
   \<and> contribution [''sleep'' \<mapsto> 10, ''junk_food'' \<mapsto> 7] Junk_food = 0"
  using composite_score_weighted_formula
    [of "[''sleep'' \<mapsto> 10, ''junk_food'' \<mapsto> 7]" Water]
    composite_score_weighted_formula
    [of "[''sleep'' \<mapsto> 10, ''junk_food'' \<mapsto> 7]" Sleep]
    composite_score_weighted_formula
    [of "[''sleep'' \<mapsto> 10, ''junk_food'' \<mapsto> 7]" Junk_food]
  by (simp add: field_value_def)

subsection \<open>Bounds\<close>

text \<open>
  Claim C2. For every record whose six fixed fields are all non-negative (an absent field
  counting as 0), \<open>composite_score\<close> lies in the closed interval from 0 to 1.
\<close>

theorem composite_score_bounds:
  assumes "\<forall>m. 0 \<le> field_value row m"
  shows "0 \<le> composite_score row \<and> composite_score row \<le> 1"
proof -
  have b: "0 \<le> contribution row m \<and> contribution row m \<le> weight m" for m
    using assms by (simp add: contribution_bounds)
  have lo: "0 \<le> weighted_formula row"
    using b [of Sleep] b [of Healthy_food] b [of Junk_food] b [of Exercise] b [of Water]
      b [of Reading]
    unfolding weighted_formula_sum by linarith
  have hi: "weighted_formula row \<le> 1"
    using b [of Sleep] b [of Healthy_food] b [of Junk_food] b [of Exercise] b [of Water]
      b [of Reading]
    unfolding weighted_formula_sum by simp
  from lo hi show ?thesis by (simp add: composite_score_eq_formula)
qed

text \<open>
  A day with 8 hours of sleep, 4 healthy portions, no junk food, 45 minutes of exercise,
  8 glasses of water and 30 minutes of reading scores 0.814.
\<close>

theorem composite_score_bounds_witness:
  "(\<forall>m. 0 \<le> field_value [''sleep'' \<mapsto> 8, ''healthy_food'' \<mapsto> 4, ''junk_food'' \<mapsto> 0,
        ''exercise'' \<mapsto> 45, ''water'' \<mapsto> 8, ''reading'' \<mapsto> 30] m)
   \<and> 0 \<le> composite_score [''sleep'' \<mapsto> 8, ''healthy_food'' \<mapsto> 4, ''junk_food'' \<mapsto> 0,
        ''exercise'' \<mapsto> 45, ''water'' \<mapsto> 8, ''reading'' \<mapsto> 30]
   \<and> composite_score [''sleep'' \<mapsto> 8, ''healthy_food'' \<mapsto> 4, ''junk_food'' \<mapsto> 0,
        ''exercise'' \<mapsto> 45, ''water'' \<mapsto> 8, ''reading'' \<mapsto> 30] \<le> 1
   \<and> composite_score [''sleep'' \<mapsto> 8, ''healthy_food'' \<mapsto> 4, ''junk_food'' \<mapsto> 0,
        ''exercise'' \<mapsto> 45, ''water'' \<mapsto> 8, ''reading'' \<mapsto> 30] = 0.814"
proof -
  have nonneg: "\<forall>m. 0 \<le> field_value [''sleep'' \<mapsto> 8, ''healthy_food'' \<mapsto> 4,
      ''junk_food'' \<mapsto> 0, ''exercise'' \<mapsto> 45, ''water'' \<mapsto> 8, ''reading'' \<mapsto> 30] m"
  proof
    fix m
    show "0 \<le> field_value [''sleep'' \<mapsto> 8, ''healthy_food'' \<mapsto> 4,
      ''junk_food'' \<mapsto> 0, ''exercise'' \<mapsto> 45, ''water'' \<mapsto> 8, ''reading'' \<mapsto> 30] m"
      by (cases m) (simp_all add: field_value_def)
  qed
  have score: "composite_score [''sleep'' \<mapsto> 8, ''healthy_food'' \<mapsto> 4, ''junk_food'' \<mapsto> 0,
        ''exercise'' \<mapsto> 45, ''water'' \<mapsto> 8, ''reading'' \<mapsto> 30] = 0.814"
    by (simp add: composite_score_unfold row_get_def)
  from composite_score_bounds [OF nonneg] nonneg score show ?thesis by blast
qed

subsection \<open>Monotonicity\<close>



subsection \<open>The floor of the score\<close>





section \<open>Properties of \<open>analyze_week\<close>\<close>

subsection \<open>The first maximum\<close>

text \<open>
  The scan invariant: \<open>pre\<close> is what has been read, \<open>bi\<close> the position of its first
  maximum and \<open>bv\<close> the value there.
\<close>

lemma argmax_scan_first_max:
  assumes "bi < length pre" "bv = pre ! bi"
    "\<forall>j < length pre. pre ! j \<le> bv" "\<forall>j < bi. pre ! j < bv"
  shows "let k = argmax_scan bi bv (length pre) xs in
     k < length (pre @ xs) \<and> (\<forall>j < length (pre @ xs). (pre @ xs) ! j \<le> (pre @ xs) ! k)
     \<and> (\<forall>j < k. (pre @ xs) ! j < (pre @ xs) ! k)"
  using assms
proof (induction xs arbitrary: pre bi bv)
  case Nil
  then show ?case by (simp add: Let_def)
next
  case (Cons x xs)
  show ?case
  proof (cases "bv < x")
    case True
    have "let k = argmax_scan (length pre) x (length (pre @ [x])) xs in
       k < length ((pre @ [x]) @ xs)
       \<and> (\<forall>j < length ((pre @ [x]) @ xs). ((pre @ [x]) @ xs) ! j \<le> ((pre @ [x]) @ xs) ! k)
       \<and> (\<forall>j < k. ((pre @ [x]) @ xs) ! j < ((pre @ [x]) @ xs) ! k)"
    proof (rule Cons.IH)
      show "length pre < length (pre @ [x])" by simp
      show "x = (pre @ [x]) ! length pre" by simp
      show "\<forall>j<length (pre @ [x]). (pre @ [x]) ! j \<le> x"
        using Cons.prems(3) True by (auto simp: nth_append less_Suc_eq)
      show "\<forall>j<length pre. (pre @ [x]) ! j < x"
        using Cons.prems(3) True by (auto simp: nth_append)
    qed
    with True show ?thesis by (simp add: Let_def)
  next
    case False
    have "let k = argmax_scan bi bv (length (pre @ [x])) xs in
       k < length ((pre @ [x]) @ xs)
       \<and> (\<forall>j < length ((pre @ [x]) @ xs). ((pre @ [x]) @ xs) ! j \<le> ((pre @ [x]) @ xs) ! k)
       \<and> (\<forall>j < k. ((pre @ [x]) @ xs) ! j < ((pre @ [x]) @ xs) ! k)"
    proof (rule Cons.IH)
      show "bi < length (pre @ [x])" using Cons.prems(1) by simp
      show "bv = (pre @ [x]) ! bi" using Cons.prems(1,2) by (simp add: nth_append)
      show "\<forall>j<length (pre @ [x]). (pre @ [x]) ! j \<le> bv"
        using Cons.prems(3) False by (auto simp: nth_append less_Suc_eq)
      show "\<forall>j<bi. (pre @ [x]) ! j < bv"
        using Cons.prems(1,4) by (auto simp: nth_append)
    qed
    with False show ?thesis by (simp add: Let_def)
  qed
qed

lemma idxmax_first_max:
  assumes "xs \<noteq> []"
  shows "\<exists>k. idxmax xs = Inr k \<and> k < length xs \<and> (\<forall>j < length xs. xs ! j \<le> xs ! k)
     \<and> (\<forall>j < k. xs ! j < xs ! k)"
proof -
  from assms obtain x r where xs: "xs = x # r" by (cases xs) auto
  have "let k = argmax_scan 0 x (length [x]) r in
     k < length ([x] @ r) \<and> (\<forall>j < length ([x] @ r). ([x] @ r) ! j \<le> ([x] @ r) ! k)
     \<and> (\<forall>j < k. ([x] @ r) ! j < ([x] @ r) ! k)"
    by (rule argmax_scan_first_max) simp_all
  then show ?thesis by (simp add: xs idxmax_def Let_def)
qed

subsection \<open>The three outcomes\<close>

lemma select_columns_present:
  "set cols \<subseteq> set (columns df) \<Longrightarrow> select_columns df cols = Inr (df\<lparr>columns := cols\<rparr>)"
  by (simp add: select_columns_def filter_empty_conv subset_iff split: list.splits)

lemma select_columns_missing:
  assumes "\<not> set cols \<subseteq> set (columns df)"
  shows "\<exists>ms. select_columns df cols = Inl (KeyError ms)"
proof -
  from assms have "filter (\<lambda>c. c \<notin> set (columns df)) cols \<noteq> []"
    by (auto simp: filter_empty_conv)
  then show ?thesis
    by (simp add: select_columns_def split: list.splits)
qed

lemma analyze_week_empty: "rows df = [] \<Longrightarrow> analyze_week df = Inr None"
  by (simp add: analyze_week_def empty_df_def)

lemma analyze_week_summary:
  assumes "rows df \<noteq> []" "set fixed_cols \<subseteq> set (columns df)"
  shows "\<exists>k. idxmax (score_column df) = Inr k \<and> analyze_week df =
     Inr (Some \<lparr>best_day = date (rows df ! k),
       averages = mean_to_dict (df\<lparr>columns := fixed_cols\<rparr>),
       scores = sort_key fst (zip (map date (rows df)) (score_column df))\<rparr>)"
proof -
  have "score_column df \<noteq> []" using assms(1) by (simp add: score_column_def)
  then obtain k where "idxmax (score_column df) = Inr k"
    using idxmax_first_max by blast
  then show ?thesis
    using assms by (simp add: analyze_week_def empty_df_def bind_result_def Let_def
        select_columns_present)
qed

lemma analyze_week_error:
  assumes "rows df \<noteq> []" "\<not> set fixed_cols \<subseteq> set (columns df)"
  shows "\<exists>ms. analyze_week df = Inl (KeyError ms)"
proof -
  have "score_column df \<noteq> []" using assms(1) by (simp add: score_column_def)
  then obtain k where "idxmax (score_column df) = Inr k"
    using idxmax_first_max by blast
  moreover obtain ms where "select_columns df fixed_cols = Inl (KeyError ms)"
    using select_columns_missing [OF assms(2)] by blast
  ultimately show ?thesis
    using assms by (simp add: analyze_week_def empty_df_def bind_result_def Let_def)
qed

lemma analyze_week_SomeD:
  assumes "analyze_week df = Inr (Some s)"
  shows "rows df \<noteq> [] \<and> set fixed_cols \<subseteq> set (columns df)
     \<and> (\<exists>k. idxmax (score_column df) = Inr k
          \<and> s = \<lparr>best_day = date (rows df ! k),
                 averages = mean_to_dict (df\<lparr>columns := fixed_cols\<rparr>),
                 scores = sort_key fst (zip (map date (rows df)) (score_column df))\<rparr>)"
proof -
  have ne: "rows df \<noteq> []"
    using assms analyze_week_empty [of df] by auto
  have cols: "set fixed_cols \<subseteq> set (columns df)"
    using assms analyze_week_error [OF ne] by auto
  from analyze_week_summary [OF ne cols] assms ne cols show ?thesis by auto
qed

subsection \<open>Empty input\<close>

text \<open>
  Claim C4. \<open>analyze_week\<close> returns \<open>None\<close> on a frame without rows: the result is neither
  an exception nor a summary. No frame with a row gives \<open>None\<close>.
\<close>

theorem analyze_week_none_iff: "analyze_week df = Inr None \<longleftrightarrow> rows df = []"
proof
  assume none: "analyze_week df = Inr None"
  show "rows df = []"
  proof (rule ccontr)
    assume ne: "rows df \<noteq> []"
    show False
    proof (cases "set fixed_cols \<subseteq> set (columns df)")
      case True
      from analyze_week_summary [OF ne True] none show False by auto
    next
      case False
      from analyze_week_error [OF ne False] none show False by auto
    qed
  qed
next
  assume "rows df = []"
  then show "analyze_week df = Inr None" by (rule analyze_week_empty)
qed

text \<open>The frame with the six columns and no row; the example week is not mapped to \<open>None\<close>.\<close>

theorem analyze_week_none_iff_witness:
  "analyze_week \<lparr>columns = fixed_cols, rows = []\<rparr> = Inr None
   \<and> rows example_week \<noteq> []
   \<and> analyze_week example_week \<noteq> Inr None"
  using analyze_week_none_iff [of "\<lparr>columns = fixed_cols, rows = []\<rparr>"]
    analyze_week_none_iff [of example_week]
  by (simp add: example_week_def)

subsection \<open>Best day\<close>

lemma score_column_nth:
  "j < length (rows df) \<Longrightarrow>
     score_column df ! j = composite_score (row_series (columns df) (rows df ! j))"
  by (simp add: score_column_def)

text \<open>
  Claim C5. On a frame with at least one row and the six fixed columns \<open>analyze_week\<close>
  returns a summary. Whenever it returns a summary, \<open>best_day\<close> is the date of a row
  whose score is maximal among all rows and strictly larger than the score of every
  row before it: of several rows with the maximal score, the first in the order of the
  input.
\<close>

theorem analyze_week_best_day:
  "(rows df \<noteq> [] \<and> set fixed_cols \<subseteq> set (columns df) \<longrightarrow>
      (\<exists>s. analyze_week df = Inr (Some s)))
   \<and> (analyze_week df = Inr (Some s) \<longrightarrow>
      (\<exists>i < length (rows df). best_day s = date (rows df ! i)
         \<and> (\<forall>j < length (rows df).
               composite_score (row_series (columns df) (rows df ! j))
                 \<le> composite_score (row_series (columns df) (rows df ! i)))
         \<and> (\<forall>j < i.
               composite_score (row_series (columns df) (rows df ! j))
                 < composite_score (row_series (columns df) (rows df ! i)))))"
proof (intro conjI impI)
  assume "rows df \<noteq> [] \<and> set fixed_cols \<subseteq> set (columns df)"
  then show "\<exists>s. analyze_week df = Inr (Some s)"
    using analyze_week_summary [of df] by auto
next
  assume "analyze_week df = Inr (Some s)"
  from analyze_week_SomeD [OF this] obtain k where
    ne: "rows df \<noteq> []" and k: "idxmax (score_column df) = Inr k"
    and s: "best_day s = date (rows df ! k)"
    by auto
  have "score_column df \<noteq> []" using ne by (simp add: score_column_def)
  from idxmax_first_max [OF this] k have
    lt: "k < length (score_column df)"
    and mx: "\<forall>j < length (score_column df). score_column df ! j \<le> score_column df ! k"
    and fst: "\<forall>j < k. score_column df ! j < score_column df ! k"
    by auto
  have len: "length (score_column df) = length (rows df)"
    by (simp add: score_column_def)
  show "\<exists>i < length (rows df). best_day s = date (rows df ! i)
         \<and> (\<forall>j < length (rows df).
               composite_score (row_series (columns df) (rows df ! j))
                 \<le> composite_score (row_series (columns df) (rows df ! i)))
         \<and> (\<forall>j < i.
               composite_score (row_series (columns df) (rows df ! j))
                 < composite_score (row_series (columns df) (rows df ! i)))"
  proof (intro exI [of _ k] conjI allI impI)
    show "k < length (rows df)" using lt len by simp
    show "best_day s = date (rows df ! k)" by (rule s)
  next
    fix j assume "j < length (rows df)"
    then show "composite_score (row_series (columns df) (rows df ! j))
                 \<le> composite_score (row_series (columns df) (rows df ! k))"
      using mx lt len by (simp flip: score_column_nth)
  next
    fix j assume "j < k"
    then show "composite_score (row_series (columns df) (rows df ! j))
                 < composite_score (row_series (columns df) (rows df ! k))"
      using fst lt len by (simp flip: score_column_nth)
  qed
qed

text \<open>
  In \<open>tie_week\<close> the first two rows have the same score 0.814 and the third a smaller
  one; the summary names day 5, the date of the first row, although the second row has
  the earlier date.
\<close>

theorem analyze_week_best_day_witness:
  "rows tie_week \<noteq> [] \<and> set fixed_cols \<subseteq> set (columns tie_week)
   \<and> composite_score (row_series (columns tie_week) (rows tie_week ! 0)) = 0.814
   \<and> composite_score (row_series (columns tie_week) (rows tie_week ! 1)) = 0.814
   \<and> date (rows tie_week ! 0) = 5 \<and> date (rows tie_week ! 1) = 3
   \<and> (\<exists>s. analyze_week tie_week = Inr (Some s) \<and> best_day s = 5)"
proof -
  have ne: "rows tie_week \<noteq> [] \<and> set fixed_cols \<subseteq> set (columns tie_week)"
    by (simp add: tie_week_def fixed_cols_def)
  have len: "length (rows tie_week) = 3"
    by (simp add: tie_week_def)
  have sc0: "composite_score (row_series (columns tie_week) (rows tie_week ! 0)) = 0.814"
    by (simp add: tie_week_def new_entry_def row_series_def composite_score_unfold row_get_def)
  have sc1: "composite_score (row_series (columns tie_week) (rows tie_week ! 1)) = 0.814"
    by (simp add: tie_week_def new_entry_def row_series_def composite_score_unfold row_get_def)
  have sc2: "composite_score (row_series (columns tie_week) (rows tie_week ! 2)) = 203 / 750"
    by (simp add: tie_week_def new_entry_def row_series_def composite_score_unfold row_get_def)
  have d: "date (rows tie_week ! 0) = 5 \<and> date (rows tie_week ! 1) = 3"
    by (simp add: tie_week_def new_entry_def)
  from analyze_week_best_day [of tie_week] ne
  obtain s where s: "analyze_week tie_week = Inr (Some s)" by blast
  from analyze_week_best_day [of tie_week s] s obtain i where
    i: "i < length (rows tie_week)" and day: "best_day s = date (rows tie_week ! i)"
    and mx: "\<forall>j < length (rows tie_week).
               composite_score (row_series (columns tie_week) (rows tie_week ! j))
                 \<le> composite_score (row_series (columns tie_week) (rows tie_week ! i))"
    and first: "\<forall>j < i.
               composite_score (row_series (columns tie_week) (rows tie_week ! j))
                 < composite_score (row_series (columns tie_week) (rows tie_week ! i))"
    by blast
  from i len have "i = 0 \<or> i = 1 \<or> i = 2" by auto
  then have "i = 0"
  proof (elim disjE)
    assume "i = 0" then show ?thesis .
  next
    assume "i = 1"
    with first have "composite_score (row_series (columns tie_week) (rows tie_week ! 0))
        < composite_score (row_series (columns tie_week) (rows tie_week ! 1))" by simp
    with sc0 sc1 show ?thesis by simp
  next
    assume "i = 2"
    with first have "composite_score (row_series (columns tie_week) (rows tie_week ! 0))
        < composite_score (row_series (columns tie_week) (rows tie_week ! 2))" by simp
    with sc0 sc2 show ?thesis by simp
  qed
  with day d have "best_day s = 5" by simp
  with s ne sc0 sc1 d show ?thesis by blast
qed

subsection \<open>Averages\<close>

lemma mean_to_dict_fixed:
  "mean_to_dict (df\<lparr>columns := fixed_cols\<rparr>) (label m) =
     Some (sum_list (map (\<lambda>e. cell e (label m)) (rows df)) / real (length (rows df)))"
  by (cases m) (simp_all add: mean_to_dict_def fixed_cols_def mean_def)

lemma dom_mean_to_dict: "dom (mean_to_dict df) = set (columns df)"
  by (simp add: mean_to_dict_def dom_map_of_conv_image_fst image_image)

text \<open>
  Claim C6. On a frame of \<open>N\<close> rows, \<open>N\<close> at least 1, that has the six fixed columns,
  \<open>analyze_week\<close> returns a summary whose \<open>averages\<close> give for each of the six metrics
  the sum of that column over all rows divided by \<open>N\<close>, and have no other key: the
  custom columns are left out.
\<close>

theorem analyze_week_averages:
  assumes "rows df \<noteq> []" and "set fixed_cols \<subseteq> set (columns df)"
  shows "\<exists>s. analyze_week df = Inr (Some s)
     \<and> (\<forall>m. averages s (label m) =
           Some (sum_list (map (\<lambda>e. cell e (label m)) (rows df)) / real (length (rows df))))
     \<and> dom (averages s) = set fixed_cols"
proof -
  from analyze_week_summary [OF assms] obtain k where
    "analyze_week df =
       Inr (Some \<lparr>best_day = date (rows df ! k),
         averages = mean_to_dict (df\<lparr>columns := fixed_cols\<rparr>),
         scores = sort_key fst (zip (map date (rows df)) (score_column df))\<rparr>)"
    by blast
  then show ?thesis
    by (simp add: mean_to_dict_fixed dom_mean_to_dict)
qed

text \<open>
  The example week: the mean of sleep over the three days is 19/3, that of junk food
  4/3, and the custom column \<open>meditation\<close> has no average.
\<close>

theorem analyze_week_averages_witness:
  "rows example_week \<noteq> [] \<and> set fixed_cols \<subseteq> set (columns example_week)
   \<and> (\<exists>s. analyze_week example_week = Inr (Some s)
        \<and> averages s ''sleep'' = Some (19 / 3)
        \<and> averages s ''junk_food'' = Some (4 / 3)
        \<and> averages s ''meditation'' = None)"
proof -
  have ne: "rows example_week \<noteq> []"
    by (simp add: example_week_def)
  have cols: "set fixed_cols \<subseteq> set (columns example_week)"
    by (simp add: example_week_def fixed_cols_def)
  from analyze_week_averages [OF ne cols] obtain s where
    s: "analyze_week example_week = Inr (Some s)"
    and av: "\<forall>m. averages s (label m) =
           Some (sum_list (map (\<lambda>e. cell e (label m)) (rows example_week))
             / real (length (rows example_week)))"
    and dm: "dom (averages s) = set fixed_cols"
    by blast
  from av have "averages s (label Sleep) =
      Some (sum_list (map (\<lambda>e. cell e (label Sleep)) (rows example_week))
             / real (length (rows example_week)))" by blast
  then have sleep: "averages s ''sleep'' = Some (19 / 3)"
    by (simp add: example_week_def new_entry_def)
  from av have "averages s (label Junk_food) =
      Some (sum_list (map (\<lambda>e. cell e (label Junk_food)) (rows example_week))
             / real (length (rows example_week)))" by blast
  then have junk: "averages s ''junk_food'' = Some (4 / 3)"
    by (simp add: example_week_def new_entry_def)
  have "''meditation'' \<notin> dom (averages s)"
    unfolding dm by (simp add: fixed_cols_def)
  then have med: "averages s ''meditation'' = None" by blast
  from ne cols s sleep junk med show ?thesis by blast
qed

subsection \<open>Score series\<close>

lemma zip_date_score:
  "zip (map date (rows df)) (score_column df) =
     map (\<lambda>e. (date e, composite_score (row_series (columns df) e))) (rows df)"
  by (simp add: score_column_def zip_map_map zip_same_conv_map)

text \<open>
  Claim C7. On a frame with at least one row and the six fixed columns \<open>analyze_week\<close>
  returns a summary. Whenever it returns a summary, \<open>scores\<close> holds the pairs of date
  and \<open>composite_score\<close> of the rows, each row once (as multisets the two agree, so rows
  of equal date stay separate entries), ordered by ascending date.
\<close>

theorem analyze_week_scores:
  "(rows df \<noteq> [] \<and> set fixed_cols \<subseteq> set (columns df) \<longrightarrow>
      (\<exists>s. analyze_week df = Inr (Some s)))
   \<and> (analyze_week df = Inr (Some s) \<longrightarrow>
        mset (scores s) =
          mset (map (\<lambda>e. (date e, composite_score (row_series (columns df) e))) (rows df))
        \<and> length (scores s) = length (rows df)
        \<and> sorted (map fst (scores s)))"
proof (intro conjI impI)
  assume "rows df \<noteq> [] \<and> set fixed_cols \<subseteq> set (columns df)"
  then show "\<exists>s. analyze_week df = Inr (Some s)"
    using analyze_week_summary [of df] by auto
next
  assume "analyze_week df = Inr (Some s)"
  from analyze_week_SomeD [OF this] have
    sc: "scores s = sort_key fst (zip (map date (rows df)) (score_column df))"
    by auto
  show "mset (scores s) =
          mset (map (\<lambda>e. (date e, composite_score (row_series (columns df) e))) (rows df))"
    by (simp add: sc zip_date_score)
  show "length (scores s) = length (rows df)"
    by (simp add: sc zip_date_score)
  show "sorted (map fst (scores s))"
    by (simp add: sc)
qed

text \<open>
  In \<open>tie_week\<close> day 5 was entered twice. The series has three entries, both entries of
  day 5 among them, in the order of the dates 3, 5, 5; the scores along it are not
  ascending.
\<close>

theorem analyze_week_scores_witness:
  "rows tie_week \<noteq> [] \<and> set fixed_cols \<subseteq> set (columns tie_week)
   \<and> (\<exists>s. analyze_week tie_week = Inr (Some s)
        \<and> scores s = [(3, 0.814), (5, 0.814), (5, 203 / 750)]
        \<and> mset (scores s) = {#(5, 0.814), (3, 0.814), (5, 203 / 750)#}
        \<and> length (scores s) = 3
        \<and> sorted (map fst (scores s))
        \<and> \<not> sorted (map snd (scores s)))"
proof -
  have ne: "rows tie_week \<noteq> [] \<and> set fixed_cols \<subseteq> set (columns tie_week)"
    by (simp add: tie_week_def fixed_cols_def)
  from analyze_week_scores [of tie_week] ne
  obtain s where s: "analyze_week tie_week = Inr (Some s)" by blast
  from analyze_week_SomeD [OF s] have
    "scores s = sort_key fst (zip (map date (rows tie_week)) (score_column tie_week))"
    by auto
  then have explicit: "scores s = [(3, 0.814), (5, 0.814), (5, 203 / 750)]"
    by (simp add: tie_week_def new_entry_def score_column_def row_series_def
        composite_score_unfold row_get_def)
  from analyze_week_scores [of tie_week s] s have
    ms: "mset (scores s) = mset (map (\<lambda>e. (date e,
           composite_score (row_series (columns tie_week) e))) (rows tie_week))"
    and len: "length (scores s) = length (rows tie_week)"
    and srt: "sorted (map fst (scores s))"
    by blast+
  from ms have ms': "mset (scores s) = {#(5, 0.814), (3, 0.814), (5, 203 / 750)#}"
    by (simp add: tie_week_def new_entry_def row_series_def composite_score_unfold row_get_def)
  from len have len': "length (scores s) = 3"
    by (simp add: tie_week_def)
  have "\<not> sorted (map snd (scores s))"
    by (simp del: sorted_wrt.simps add: explicit sorted2)
  with ne s explicit ms' len' srt show ?thesis by blast
qed

section \<open>Properties of the advisory rules\<close>

lemma bind_result_Inr: "bind_result (Inr v) f = f v"
  by (simp add: bind_result_def)

lemma append_if: "(if c then tips @ [msg] else tips) = tips @ (if c then [msg] else [])"
  by simp

lemma suggestions_from_averages_eq:
  assumes "avg ''sleep'' = Some sleep" and "avg ''water'' = Some water"
    and "avg ''exercise'' = Some exercise" and "avg ''healthy_food'' = Some healthy_food"
    and "avg ''junk_food'' = Some junk_food" and "avg ''reading'' = Some reading"
  shows "suggestions_from_averages avg =
     Inr (let tips = (if sleep < 6 then [tip_sleep] else [])
            @ (if water < 6 then [tip_water] else [])
            @ (if exercise < 20 then [tip_exercise] else [])
            @ (if healthy_food < 3 then [tip_healthy_food] else [])
            @ (if 1 < junk_food then [tip_junk_food] else [])
            @ (if reading < 15 then [tip_reading] else [])
          in if tips = [] then [tip_great] else tips)"
proof -
  have reads: "lookup avg ''sleep'' = Inr sleep" "lookup avg ''water'' = Inr water"
    "lookup avg ''exercise'' = Inr exercise" "lookup avg ''healthy_food'' = Inr healthy_food"
    "lookup avg ''junk_food'' = Inr junk_food" "lookup avg ''reading'' = Inr reading"
    using assms by (simp_all add: lookup_def)
  show ?thesis
    unfolding suggestions_from_averages_def Let_def reads bind_result_Inr append_if
    by simp
qed

lemma alerts_eq:
  assumes "avgs ''water'' = Some water" and "avgs ''sleep'' = Some sleep"
    and "avgs ''exercise'' = Some exercise"
  shows "alerts avgs =
     Inr ((if water < 5 then [alert_water] else [])
        @ (if sleep < 6 then [alert_sleep] else [])
        @ (if exercise < 15 then [alert_exercise] else []))"
proof -
  have reads: "lookup avgs ''water'' = Inr water" "lookup avgs ''sleep'' = Inr sleep"
    "lookup avgs ''exercise'' = Inr exercise"
    using assms by (simp_all add: lookup_def)
  show ?thesis
    unfolding alerts_def Let_def reads bind_result_Inr append_if
    by simp
qed

lemma fired_suggestion_table:
  "fired suggestion_table v =
     (if v ''sleep'' < 6 then [tip_sleep] else [])
     @ (if v ''water'' < 6 then [tip_water] else [])
     @ (if v ''exercise'' < 20 then [tip_exercise] else [])
     @ (if v ''healthy_food'' < 3 then [tip_healthy_food] else [])
     @ (if 1 < v ''junk_food'' then [tip_junk_food] else [])
     @ (if v ''reading'' < 15 then [tip_reading] else [])"
  by (simp add: fired_def suggestion_table_def)

lemma fired_alert_table:
  "fired alert_table v =
     (if v ''water'' < 5 then [alert_water] else [])
     @ (if v ''sleep'' < 6 then [alert_sleep] else [])
     @ (if v ''exercise'' < 15 then [alert_exercise] else [])"
  by (simp add: fired_def alert_table_def)

subsection \<open>Suggestions\<close>

text \<open>
  Claim C8. For averages that hold the six fixed metrics, \<open>suggestions_from_averages\<close>
  raises nothing and returns the messages of the rules \<open>sleep < 6\<close>, \<open>water < 6\<close>,
  \<open>exercise < 20\<close>, \<open>healthy_food < 3\<close>, \<open>junk_food > 1\<close>, \<open>reading < 15\<close> that hold, in
  this order, each rule on its own; when none holds it returns the single message
  \<open>tip_great\<close>. This is the reading of the specification's rule table, and the returned
  list is never empty.
\<close>

theorem suggestions_rule_table:
  assumes "avg ''sleep'' = Some sleep" and "avg ''water'' = Some water"
    and "avg ''exercise'' = Some exercise" and "avg ''healthy_food'' = Some healthy_food"
    and "avg ''junk_food'' = Some junk_food" and "avg ''reading'' = Some reading"
  shows "suggestions_from_averages avg =
       Inr (let tips = (if sleep < 6 then [tip_sleep] else [])
              @ (if water < 6 then [tip_water] else [])
              @ (if exercise < 20 then [tip_exercise] else [])
              @ (if healthy_food < 3 then [tip_healthy_food] else [])
              @ (if junk_food > 1 then [tip_junk_food] else [])
              @ (if reading < 15 then [tip_reading] else [])
            in if tips = [] then [tip_great] else tips)
     \<and> suggestions_from_averages avg = Inr (suggestions_spec (\<lambda>k. the (avg k)))
     \<and> (\<not> sleep < 6 \<and> \<not> water < 6 \<and> \<not> exercise < 20 \<and> \<not> healthy_food < 3
          \<and> \<not> junk_food > 1 \<and> \<not> reading < 15
          \<longrightarrow> suggestions_from_averages avg = Inr [tip_great])
     \<and> suggestions_from_averages avg \<noteq> Inr []"
proof -
  note eq = suggestions_from_averages_eq [OF assms]
  have spec: "suggestions_from_averages avg = Inr (suggestions_spec (\<lambda>k. the (avg k)))"
    unfolding eq suggestions_spec_def fired_suggestion_table
    by (simp add: assms Let_def)
  have great: "\<not> sleep < 6 \<and> \<not> water < 6 \<and> \<not> exercise < 20 \<and> \<not> healthy_food < 3
          \<and> \<not> junk_food > 1 \<and> \<not> reading < 15
          \<longrightarrow> suggestions_from_averages avg = Inr [tip_great]"
    unfolding eq by (simp add: Let_def)
  have nonempty: "suggestions_from_averages avg \<noteq> Inr []"
    unfolding eq by (simp add: Let_def)
  from eq spec great nonempty show ?thesis by blast
qed

text \<open>
  The good week of the specification gets the positive message alone; the week that
  is low on sleep, water and exercise, with more than one junk food item a day, gets
  four suggestions in table order.
\<close>

theorem suggestions_rule_table_witness:
  "suggestions_from_averages [''sleep'' \<mapsto> 8, ''water'' \<mapsto> 8, ''exercise'' \<mapsto> 30,
       ''healthy_food'' \<mapsto> 4, ''junk_food'' \<mapsto> 0, ''reading'' \<mapsto> 20] = Inr [tip_great]
   \<and> suggestions_from_averages [''sleep'' \<mapsto> 5, ''water'' \<mapsto> 4, ''exercise'' \<mapsto> 10,
       ''healthy_food'' \<mapsto> 4, ''junk_food'' \<mapsto> 2, ''reading'' \<mapsto> 20]
       = Inr [tip_sleep, tip_water, tip_exercise, tip_junk_food]"
  using suggestions_rule_table [of "[''sleep'' \<mapsto> 8, ''water'' \<mapsto> 8, ''exercise'' \<mapsto> 30,
       ''healthy_food'' \<mapsto> 4, ''junk_food'' \<mapsto> 0, ''reading'' \<mapsto> 20]" 8 8 30 4 0 20]
    suggestions_rule_table [of "[''sleep'' \<mapsto> 5, ''water'' \<mapsto> 4, ''exercise'' \<mapsto> 10,
       ''healthy_food'' \<mapsto> 4, ''junk_food'' \<mapsto> 2, ''reading'' \<mapsto> 20]" 5 4 10 4 2 20]
  by simp

subsection \<open>Alerts\<close>

text \<open>
  Claim C9. For averages that hold the six fixed metrics, the alert rules raise nothing
  and give one message for each of \<open>water < 5\<close>, \<open>sleep < 6\<close>, \<open>exercise < 15\<close> that
  holds, in this order (water, sleep, exercise), which is the reading of the
  specification's list of alert rules. When none of the three holds the list is empty,
  while the suggestions for the same averages are not.
\<close>

theorem alerts_rule_table:
  assumes "avg ''sleep'' = Some sleep" and "avg ''water'' = Some water"
    and "avg ''exercise'' = Some exercise" and "avg ''healthy_food'' = Some healthy_food"
    and "avg ''junk_food'' = Some junk_food" and "avg ''reading'' = Some reading"
  shows "alerts avg =
       Inr ((if water < 5 then [alert_water] else [])
          @ (if sleep < 6 then [alert_sleep] else [])
          @ (if exercise < 15 then [alert_exercise] else []))
     \<and> alerts avg = Inr (fired alert_table (\<lambda>k. the (avg k)))
     \<and> (\<not> water < 5 \<and> \<not> sleep < 6 \<and> \<not> exercise < 15 \<longrightarrow> alerts avg = Inr [])
     \<and> (alerts avg = Inr [] \<longrightarrow> \<not> water < 5 \<and> \<not> sleep < 6 \<and> \<not> exercise < 15)
     \<and> (\<exists>tips. suggestions_from_averages avg = Inr tips \<and> tips \<noteq> [])"
proof -
  note eq = alerts_eq [OF assms(2) assms(1) assms(3)]
  have spec: "alerts avg = Inr (fired alert_table (\<lambda>k. the (avg k)))"
    unfolding eq fired_alert_table by (simp add: assms)
  have none: "\<not> water < 5 \<and> \<not> sleep < 6 \<and> \<not> exercise < 15 \<longrightarrow> alerts avg = Inr []"
    unfolding eq by simp
  have only: "alerts avg = Inr [] \<longrightarrow> \<not> water < 5 \<and> \<not> sleep < 6 \<and> \<not> exercise < 15"
    unfolding eq by (simp split: if_splits)
  have sugg: "\<exists>tips. suggestions_from_averages avg = Inr tips \<and> tips \<noteq> []"
    unfolding suggestions_from_averages_eq [OF assms] by (simp add: Let_def)
  from eq spec none only sugg show ?thesis by blast
qed

text \<open>
  The good week of the specification has no alert and one suggestion; the low week
  \<open>{sleep: 5, water: 4, exercise: 10, healthy_food: 4, junk_food: 0, reading: 20}\<close> has
  the three alerts in the order water, sleep, exercise.
\<close>

theorem alerts_rule_table_witness:
  "alerts [''sleep'' \<mapsto> 8, ''water'' \<mapsto> 8, ''exercise'' \<mapsto> 30,
       ''healthy_food'' \<mapsto> 4, ''junk_food'' \<mapsto> 0, ''reading'' \<mapsto> 20] = Inr []
   \<and> (\<exists>tips. suggestions_from_averages [''sleep'' \<mapsto> 8, ''water'' \<mapsto> 8, ''exercise'' \<mapsto> 30,
       ''healthy_food'' \<mapsto> 4, ''junk_food'' \<mapsto> 0, ''reading'' \<mapsto> 20] = Inr tips \<and> tips \<noteq> [])
   \<and> alerts [''sleep'' \<mapsto> 5, ''water'' \<mapsto> 4, ''exercise'' \<mapsto> 10,
       ''healthy_food'' \<mapsto> 4, ''junk_food'' \<mapsto> 0, ''reading'' \<mapsto> 20]
       = Inr [alert_water, alert_sleep, alert_exercise]"
  using alerts_rule_table [of "[''sleep'' \<mapsto> 8, ''water'' \<mapsto> 8, ''exercise'' \<mapsto> 30,
       ''healthy_food'' \<mapsto> 4, ''junk_food'' \<mapsto> 0, ''reading'' \<mapsto> 20]" 8 8 30 4 0 20]
    alerts_rule_table [of "[''sleep'' \<mapsto> 5, ''water'' \<mapsto> 4, ''exercise'' \<mapsto> 10,
       ''healthy_food'' \<mapsto> 4, ''junk_food'' \<mapsto> 0, ''reading'' \<mapsto> 20]" 5 4 10 4 0 20]
  by simp

end
